theory Spec2Isabelle
  imports Main "HOL-Library.Word"
begin

unbundle bit_operations_syntax

section \<open>Python values shared by the modules\<close>

text \<open>
  A Python \<open>str\<close> in the binary codec is a list of Unicode code points, a \<open>bytes\<close> value a
  list of 8-bit words. Exceptions are values of \<open>exn\<close>; every constructor stands for a
  subclass of Python's \<open>Exception\<close>, so an \<open>except Exception\<close> clause catches each of them.
\<close>

type_synonym pystr = "nat list"
type_synonym byte = "8 word"

datatype exn =
    StructError
  | UnicodeDecodeError
  | UnicodeEncodeError
  | BinasciiError
  | ValueError
  | OverflowError
  | IndexError
  | KeyError
  | AttributeError
  | ConnectionResetError
  | ClientConnectorError
  | WSServerHandshakeError int
  | ServerDisconnectedError
  | OtherException

definition str :: "string \<Rightarrow> pystr" where
  "str s = map of_char s"





section \<open>datarw.py: DataReader\<close>














section \<open>datarw.py: DataWriter\<close>

text \<open>
  The writer is the content of its \<open>BytesIO\<close>, written at the end. A method returns the new
  content, or the exception it raises together with the content at that moment.
  \<open>str.encode\<close> belongs to the Python library and is a parameter.
\<close>

type_synonym writer = "byte list"

definition write_raw :: "byte list \<Rightarrow> writer \<Rightarrow> writer" where
  "write_raw data buf = buf @ data"

definition pack_unsigned_short :: "nat \<Rightarrow> exn + byte list" where
  "pack_unsigned_short short =
     (if short \<le> 65535 then Inr [word_of_nat (short div 256), word_of_nat (short mod 256)]
      else Inl StructError)"

definition write_unsigned_short :: "nat \<Rightarrow> writer \<Rightarrow> exn \<times> writer + writer" where
  "write_unsigned_short short buf =
     (case pack_unsigned_short short of
        Inl e \<Rightarrow> Inl (e, buf)
      | Inr enc \<Rightarrow> Inr (write_raw enc buf))"

definition write_utf :: "(pystr \<Rightarrow> exn + byte list) \<Rightarrow> pystr \<Rightarrow> writer \<Rightarrow> exn \<times> writer + writer" where
  "write_utf encode utf_string buf =
     (case encode utf_string of
        Inl e \<Rightarrow> Inl (e, buf)
      | Inr utf \<Rightarrow>
          (let byte_len = length utf in
           if byte_len > 65535 then Inl (OverflowError, buf)
           else (case write_unsigned_short byte_len buf of
                   Inl eb \<Rightarrow> Inl eb
                 | Inr buf' \<Rightarrow> Inr (write_raw utf buf'))))"

section \<open>decoder.py: decode_track\<close>








section \<open>The library codecs at concrete inputs\<close>











text \<open>
  \<open>str.encode("utf8")\<close>: one to four bytes for each code point; a surrogate has no
  encoding and raises \<open>UnicodeEncodeError\<close>.
\<close>

definition utf8_of_code_point :: "nat \<Rightarrow> exn + byte list" where
  "utf8_of_code_point cp =
     (if cp < 128 then Inr [word_of_nat cp]
      else if cp < 2048 then Inr [word_of_nat (192 + cp div 64), word_of_nat (128 + cp mod 64)]
      else if 55296 \<le> cp \<and> cp \<le> 57343 then Inl UnicodeEncodeError
      else if cp < 65536
      then Inr [word_of_nat (224 + cp div 4096), word_of_nat (128 + cp div 64 mod 64),
                word_of_nat (128 + cp mod 64)]
      else Inr [word_of_nat (240 + cp div 262144), word_of_nat (128 + cp div 4096 mod 64),
                word_of_nat (128 + cp div 64 mod 64), word_of_nat (128 + cp mod 64)])"

fun py_encode :: "pystr \<Rightarrow> exn + byte list" where
  "py_encode [] = Inr []"
| "py_encode (cp # rest) =
     (case utf8_of_code_point cp of
        Inl e \<Rightarrow> Inl e
      | Inr bs \<Rightarrow> (case py_encode rest of Inl e \<Rightarrow> Inl e | Inr bs' \<Rightarrow> Inr (bs @ bs')))"

subsection \<open>Encoded tracks used as examples\<close>











section \<open>query.py: regular expressions\<close>

text \<open>
  A query string is a \<open>string\<close>: its characters are the code points below 256. On these
  Python's \<open>IGNORECASE\<close> is the ASCII one, \<open>\d\<close> is \<open>0-9\<close>, and \<open>\s\<close> and \<open>str.strip\<close> use
  the white space of \<open>whitespace\<close> below.

  \<open>run r\<close> lists every way \<open>r\<close> matches at a position, in the order a backtracking matcher
  tries them, each with the position reached, the rest of the string and the groups set.
  The first entry is the match Python's \<open>re\<close> reports. Groups the code never reads are
  written as plain grouping.
\<close>

datatype rx =
    Chr "char \<Rightarrow> bool"
  | Eps
  | Seq rx rx
  | Alt rx rx
  | Star rx
  | LazyStar rx
  | Bol
  | Eol
  | Group string rx
  | NotAhead rx

type_synonym mstate = "nat \<times> string \<times> (string \<times> string) list"

fun iter_greedy :: "nat \<Rightarrow> (mstate \<Rightarrow> mstate list) \<Rightarrow> mstate \<Rightarrow> mstate list" where
  "iter_greedy 0 f st = [st]"
| "iter_greedy (Suc n) f st =
     concat (map (iter_greedy n f) (filter (\<lambda>st'. fst st' > fst st) (f st))) @ [st]"

fun iter_lazy :: "nat \<Rightarrow> (mstate \<Rightarrow> mstate list) \<Rightarrow> mstate \<Rightarrow> mstate list" where
  "iter_lazy 0 f st = [st]"
| "iter_lazy (Suc n) f st =
     st # concat (map (iter_lazy n f) (filter (\<lambda>st'. fst st' > fst st) (f st)))"

primrec run :: "rx \<Rightarrow> mstate \<Rightarrow> mstate list" where
  "run (Chr p) = (\<lambda>(pos, rest, caps).
     (case rest of [] \<Rightarrow> [] | c # cs \<Rightarrow> if p c then [(Suc pos, cs, caps)] else []))"
| "run Eps = (\<lambda>st. [st])"
| "run (Seq a b) = (\<lambda>st. concat (map (run b) (run a st)))"
| "run (Alt a b) = (\<lambda>st. run a st @ run b st)"
| "run (Star a) = (\<lambda>st. iter_greedy (Suc (length (fst (snd st)))) (run a) st)"
| "run (LazyStar a) = (\<lambda>st. iter_lazy (Suc (length (fst (snd st)))) (run a) st)"
| "run Bol = (\<lambda>st. if fst st = 0 then [st] else [])"
| "run Eol = (\<lambda>st. if fst (snd st) = [] \<or> fst (snd st) = [CHR 0x0A] then [st] else [])"
| "run (Group name a) = (\<lambda>(pos, rest, caps).
     map (\<lambda>(pos', rest', caps'). (pos', rest', (name, take (pos' - pos) rest) # caps'))
       (run a (pos, rest, caps)))"
| "run (NotAhead a) = (\<lambda>st. if run a st = [] then [st] else [])"

definition re_match :: "rx \<Rightarrow> string \<Rightarrow> (string \<times> string) list option" where
  "re_match r s = (case run r (0, s, []) of [] \<Rightarrow> None | st # _ \<Rightarrow> Some (snd (snd st)))"

definition ord :: "char \<Rightarrow> nat" where
  "ord c = of_char c"

definition lower :: "char \<Rightarrow> char" where
  "lower c = (if 65 \<le> ord c \<and> ord c \<le> 90 then char_of (ord c + 32) else c)"

definition digit :: "char \<Rightarrow> bool" where
  "digit c = (48 \<le> ord c \<and> ord c \<le> 57)"

definition alpha :: "char \<Rightarrow> bool" where
  "alpha c = ((65 \<le> ord c \<and> ord c \<le> 90) \<or> (97 \<le> ord c \<and> ord c \<le> 122))"

definition whitespace :: "char \<Rightarrow> bool" where
  "whitespace c = ((9 \<le> ord c \<and> ord c \<le> 13) \<or> (28 \<le> ord c \<and> ord c \<le> 32)
                   \<or> ord c = 133 \<or> ord c = 160)"

definition dot :: rx where
  "dot = Chr (\<lambda>c. c \<noteq> CHR 0x0A)"

definition lit :: "string \<Rightarrow> rx" where
  "lit s = foldr (\<lambda>c. Seq (Chr (\<lambda>x. x = c))) s Eps"

definition liti :: "string \<Rightarrow> rx" where
  "liti s = foldr (\<lambda>c. Seq (Chr (\<lambda>x. lower x = lower c))) s Eps"

definition optional :: "rx \<Rightarrow> rx" where
  "optional r = Alt r Eps"

definition many1 :: "rx \<Rightarrow> rx" where
  "many1 r = Seq r (Star r)"

definition seqs :: "rx list \<Rightarrow> rx" where
  "seqs rs = foldr Seq rs Eps"

fun alts :: "rx list \<Rightarrow> rx" where
  "alts [] = Eps"
| "alts [r] = r"
| "alts (r # rs) = Alt r (alts rs)"

definition re_search :: "rx \<Rightarrow> string \<Rightarrow> (string \<times> string) list option" where
  "re_search r s =
     (case concat (map (\<lambda>i. take 1 (run r (i, drop i s, []))) [0 ..< Suc (length s)]) of
        [] \<Rightarrow> None
      | st # _ \<Rightarrow> Some (snd (snd st)))"

definition match_group :: "(string \<times> string) list \<Rightarrow> string \<Rightarrow> string option" where
  "match_group caps name = map_of caps name"

definition contains :: "string \<Rightarrow> string \<Rightarrow> bool" where
  "contains sub s = list_ex (\<lambda>i. take (length sub) (drop i s) = sub) [0 ..< Suc (length s)]"

definition strip :: "string \<Rightarrow> string" where
  "strip s = rev (dropWhile whitespace (rev (dropWhile whitespace s)))"

definition int_of_digits :: "string \<Rightarrow> int" where
  "int_of_digits s = foldl (\<lambda>acc c. acc * 10 + (int (ord c) - 48)) 0 s"

definition scheme :: rx where
  "scheme = alts [liti ''http://'', liti ''https://'', Eps]"

definition word_class :: "char \<Rightarrow> bool" where
  "word_class c = (alpha c \<or> digit c \<or> c = CHR ''-'' \<or> c = CHR ''_'')"

definition ident_class :: "char \<Rightarrow> bool" where
  "ident_class c = (alpha c \<or> digit c \<or> (92 \<le> ord c \<and> ord c \<le> 95))"

definition query_tail :: rx where
  "query_tail = alts [Seq (liti ''?'') (Star dot), Eps]"

definition not_slash :: rx where
  "not_slash = Chr (\<lambda>c. c \<noteq> CHR ''/'')"

text \<open>The patterns of lines 18 to 85, in the order of the source.\<close>

definition CLYPIT_REGEX :: rx where
  "CLYPIT_REGEX = seqs [optional (alts [liti ''http://'', seqs [liti ''https://'', optional (seqs [liti ''www'', dot])]]),
                        liti ''clyp.it/'', Star dot]"

definition GETYARN_REGEX :: rx where
  "GETYARN_REGEX = seqs [optional (alts [liti ''http://'', seqs [liti ''https://'', optional (seqs [liti ''www'', dot])]]),
                         liti ''getyarn'', dot, liti ''io/yarn-clip/'', Star dot]"

definition MIXCLOUD_REGEX :: rx where
  "MIXCLOUD_REGEX = seqs [liti ''http'', optional (liti ''s''), liti ''://'',
       optional (seqs [alts [liti ''www'', liti ''beta'', liti ''m''], liti ''.'']),
       liti ''mixcloud'', dot, liti ''com/'', many1 not_slash, liti ''/'',
       NotAhead (alts [liti ''stream'', liti ''uploads'', liti ''favorites'', liti ''listens'',
                       liti ''playlists'']),
       many1 not_slash, optional (liti ''/'')]"

definition OCRREMIX_PATTERN :: rx where
  "OCRREMIX_PATTERN = seqs [optional (seqs [liti ''http'', optional (liti ''s''), liti ''://'',
                                      optional (liti ''www.''), liti ''ocremix.org/remix/'']),
                            Group ''id'' (seqs [liti ''OCR'', many1 (Chr digit)]),
                            optional (Star dot)]"

definition PORNHUB_REGEX :: rx where
  "PORNHUB_REGEX = seqs [Bol, liti ''http'', optional (liti ''s''), liti ''://'',
       optional (seqs [many1 (Chr alpha), dot]), liti ''pornhub.'', alts [liti ''com'', liti ''net''],
       liti ''/view_video.php?viewkey='', many1 (Chr (\<lambda>c. alpha c \<or> digit c)), Star dot, Eol]"

definition REDDIT_REGEX :: rx where
  "REDDIT_REGEX = alts [
       seqs [liti ''https://'', alts [liti ''www'', liti ''old''], liti ''.reddit.com/r/'',
             many1 not_slash, liti ''/'', many1 not_slash, liti ''/'', many1 not_slash,
             optional (seqs [optional (liti ''/''), optional (many1 not_slash), optional (liti ''/'')])],
       seqs [liti ''https://v.redd.it/'', many1 not_slash, optional (Star dot)]]"

definition SOUNDGASM_REGEX :: rx where
  "SOUNDGASM_REGEX = seqs [liti ''http'', optional (liti ''s''), liti ''://soundgasm.net/u/'',
       Group ''path'' (seqs [Group ''author'' (many1 not_slash), liti ''/'', many1 not_slash])]"

definition TIKTOK_REGEX :: rx where
  "TIKTOK_REGEX = seqs [Bol, liti ''https://'', optional (alts [liti ''www.'', liti ''m.'']),
       liti ''tiktok.com/@'', Group ''user'' (many1 not_slash), liti ''/video/'',
       Group ''video'' (many1 (Chr digit)), Star dot, Eol]"

definition SPOTIFY_REGEX :: rx where
  "SPOTIFY_REGEX = seqs [optional (seqs [liti ''http'', optional (liti ''s''), liti ''://'']),
       optional (liti ''www.''), liti ''open.spotify.com/'',
       optional (seqs [liti ''user/'', many1 (Chr ident_class), liti ''/'']),
       Group ''type'' (alts [liti ''track'', liti ''album'', liti ''playlist'', liti ''artist'']),
       liti ''/'', Group ''identifier'' (many1 (Chr ident_class))]"

definition APPLE_MUSIC_REGEX :: rx where
  "APPLE_MUSIC_REGEX = seqs [optional (seqs [liti ''http'', optional (liti ''s''), liti ''://'']),
       optional (liti ''www.''), liti ''music.apple.com/'',
       optional (Group ''countrycode'' (seqs [Chr alpha, Chr alpha, liti ''/''])),
       Group ''type'' (alts [liti ''album'', liti ''playlist'', liti ''artist'']),
       optional (seqs [liti ''/'', many1 (Chr (\<lambda>c. alpha c \<or> digit c \<or> c = CHR 0x5C \<or> c = CHR ''-''))]),
       liti ''/'',
       Group ''identifier'' (many1 (Chr (\<lambda>c. alpha c \<or> digit c \<or> c = CHR ''.''))),
       optional (seqs [liti ''?i='', Group ''identifier2'' (many1 (Chr digit))])]"

definition BANDCAMP_REGEX :: rx where
  "BANDCAMP_REGEX = seqs [Bol, liti ''http'', optional (liti ''s''), liti ''://'',
       alts [seqs [many1 (Chr (\<lambda>c. c \<noteq> CHR ''.'')), liti ''.''], Eps],
       liti ''bandcamp.com/'', alts [liti ''track'', liti ''album''], liti ''/'',
       many1 (Chr ident_class), optional (liti ''/''), query_tail, Eol]"

definition NICONICO_REGEX :: rx where
  "NICONICO_REGEX = seqs [scheme, alts [liti ''www.'', Eps], liti ''nicovideo.jp/watch/'',
       liti ''sm'', many1 (Chr digit), query_tail, Eol]"

definition TWITCH_REGEX :: rx where
  "TWITCH_REGEX = seqs [Bol, liti ''https://'', optional (alts [liti ''www.'', liti ''go.'']),
       liti ''twitch.tv/'', many1 not_slash, Eol]"

definition VIMEO_REGEX :: rx where
  "VIMEO_REGEX = seqs [Bol, liti ''https://vimeo'', dot, liti ''com/'', many1 (Chr digit),
       query_tail, Eol]"

text \<open>
  \<open>SOUND_CLOUD_REGEX\<close> is the concatenation of five string literals, each ending in \<open>|\<close>:
  the pattern ends with an empty sixth alternative.
\<close>

definition soundcloud_host :: rx where
  "soundcloud_host = seqs [Bol, scheme, alts [liti ''www.'', Eps], alts [liti ''m.'', Eps],
                           liti ''soundcloud.com/'']"

definition SOUND_CLOUD_REGEX :: rx where
  "SOUND_CLOUD_REGEX = alts [
       seqs [Bol, scheme, liti ''soundcloud.app.goo.gl/'', many1 (Chr word_class), optional (liti ''/''),
             query_tail, Eol],
       seqs [soundcloud_host, many1 (Chr word_class), liti ''/'', many1 (Chr word_class),
             optional (liti ''/''), query_tail, Eol],
       seqs [soundcloud_host, many1 (Chr word_class), liti ''/'', many1 (Chr word_class),
             liti ''/s-'', many1 (Chr word_class), query_tail, Eol],
       seqs [soundcloud_host, many1 (Chr word_class), liti ''/likes'', optional (liti ''/''),
             query_tail, Eol],
       seqs [soundcloud_host, many1 (Chr word_class), liti ''/'', many1 (Chr word_class),
             liti ''/'', many1 (Chr word_class), query_tail, Eol],
       Eps]"

definition YOUTUBE_REGEX :: rx where
  "YOUTUBE_REGEX = seqs [scheme, alts [liti ''www.'', Eps], optional (Group ''music'' (liti ''music.'')),
       liti ''youtu'', alts [liti ''be.com'', liti ''.be'']]"

definition directive_tail :: rx where
  "directive_tail = seqs [LazyStar (Chr whitespace), Group ''query'' (Star dot), Eol]"

definition SPEAK_REGEX :: rx where
  "SPEAK_REGEX = seqs [Bol, Group ''source'' (liti ''speak''), liti '':'', directive_tail]"

definition GCTSS_REGEX :: rx where
  "GCTSS_REGEX = seqs [Bol, Group ''source'' (liti ''tts://''), directive_tail]"

definition SEARCH_REGEX :: rx where
  "SEARCH_REGEX = seqs [Bol,
       Group ''source'' (alts [liti ''ytm'', liti ''yt'', liti ''sp'', liti ''sc'', liti ''am'']),
       liti ''search:'', directive_tail]"

definition HTTP_REGEX :: rx where
  "HTTP_REGEX = seqs [Bol, liti ''http'', optional (liti ''s''), liti ''://'']"

definition YOUTUBE_TIMESTAMP :: rx where
  "YOUTUBE_TIMESTAMP = seqs [Chr (\<lambda>c. c = CHR ''&'' \<or> c = CHR ''|'' \<or> c = CHR ''?''), lit ''t='',
       Group ''1'' (many1 (Chr digit)), optional (lit ''s'')]"

definition YOUTUBE_INDEX :: rx where
  "YOUTUBE_INDEX = seqs [lit ''&index='', Group ''1'' (many1 (Chr digit))]"

definition LOCAL_TRACK_NESTED :: rx where
  "LOCAL_TRACK_NESTED = seqs [Bol,
       Group ''recursive'' (alts [liti ''all'', liti ''nested'', liti ''recursive'', liti ''tree'']),
       liti '':'', directive_tail]"


section \<open>query.py: Query\<close>

text \<open>
  The value of a query is a string, a \<open>LocalFile\<close> (known here by its path) or a path
  object. \<open>Query_init\<close> is \<open>__init__\<close> with all seven arguments given; \<open>query_type or
  "single"\<close> replaces \<open>None\<close> and the empty string.
\<close>

datatype query_value = Text string | LocalFile string | PathValue string

record Query =
  query :: query_value
  source :: string
  search :: bool
  start_time :: int
  index :: int
  qtype :: string
  recursive :: bool

definition Query_init ::
  "query_value \<Rightarrow> string \<Rightarrow> bool \<Rightarrow> int \<Rightarrow> int \<Rightarrow> string option \<Rightarrow> bool \<Rightarrow> Query" where
  "Query_init q src srch start idx query_type rec =
     \<lparr>query = q, source = src, search = srch, start_time = start, index = idx,
      qtype = (case query_type of None \<Rightarrow> ''single''
               | Some t \<Rightarrow> if t = [] then ''single'' else t),
      recursive = rec\<rparr>"

definition process_youtube :: "string \<Rightarrow> bool \<Rightarrow> Query" where
  "process_youtube q music =
     (let start = (case re_search YOUTUBE_TIMESTAMP q of
                     Some caps \<Rightarrow> (case match_group caps ''1'' of Some d \<Rightarrow> int_of_digits d | None \<Rightarrow> 0)
                   | None \<Rightarrow> 0);
          has_index = contains ''&index='' q;
          idx = (if has_index
                 then (case re_search YOUTUBE_INDEX q of
                         Some caps \<Rightarrow>
                           (case match_group caps ''1'' of Some d \<Rightarrow> int_of_digits d - 1 | None \<Rightarrow> 0)
                       | None \<Rightarrow> 0)
                 else 0);
          src = (if music then ''YouTube Music'' else ''YouTube'')
      in if contains ''&list='' q \<and> contains ''watch?'' q
         then Query_init (Text q) src False start 0 (Some ''playlist'') False
         else if contains ''playlist?'' q
         then Query_init (Text q) src False start idx (Some ''playlist'') False
         else if contains ''list='' q
         then Query_init (Text q) src False start 0
                (Some (if has_index then ''single'' else ''playlist'')) False
         else Query_init (Text q) src False start idx (Some ''single'') False)"

definition process_spotify :: "string \<Rightarrow> Query" where
  "process_spotify q =
     Query_init (Text q) ''Spotify'' False 0 0
       (Some (if contains ''/playlist/'' q then ''playlist''
              else if contains ''/album/'' q then ''album'' else ''single'')) False"

definition process_soundcloud :: "string \<Rightarrow> Query" where
  "process_soundcloud q =
     Query_init (Text q) ''SoundCloud'' False 0 0
       (Some (if contains ''/sets/'' q
              then (if contains ''?in='' q then ''single'' else ''playlist'')
              else ''single'')) False"

definition process_bandcamp :: "string \<Rightarrow> Query" where
  "process_bandcamp q =
     Query_init (Text q) ''Bandcamp'' False 0 0
       (Some (if contains ''/album/'' q then ''album'' else ''single'')) False"

definition matches :: "rx \<Rightarrow> string \<Rightarrow> bool" where
  "matches r s = (re_match r s \<noteq> None)"

definition plain :: "string \<Rightarrow> string \<Rightarrow> Query" where
  "plain q src = Query_init (Text q) src False 0 0 None False"

definition directive_query :: "(string \<times> string) list \<Rightarrow> string" where
  "directive_query caps = strip (case match_group caps ''query'' of Some t \<Rightarrow> t | None \<Rightarrow> [])"

definition process_urls :: "string \<Rightarrow> Query option" where
  "process_urls q =
     (case re_match YOUTUBE_REGEX q of
        Some caps \<Rightarrow>
          Some (process_youtube q (case match_group caps ''music'' of Some m \<Rightarrow> m \<noteq> [] | None \<Rightarrow> False))
      | None \<Rightarrow>
     if matches SPOTIFY_REGEX q then Some (process_spotify q)
     else if matches APPLE_MUSIC_REGEX q then Some (plain q ''Apple Music'')
     else if matches SOUND_CLOUD_REGEX q then Some (process_soundcloud q)
     else if matches TWITCH_REGEX q then Some (plain q ''Twitch'')
     else (case re_match GCTSS_REGEX q of
        Some caps \<Rightarrow> Some (Query_init (Text (directive_query caps)) ''Google TTS'' True 0 0 None False)
      | None \<Rightarrow>
     (case re_match SPEAK_REGEX q of
        Some caps \<Rightarrow> Some (Query_init (Text (directive_query caps)) ''speak'' True 0 0 None False)
      | None \<Rightarrow>
     if matches CLYPIT_REGEX q then Some (plain q ''Clyp.it'')
     else if matches GETYARN_REGEX q then Some (plain q ''GetYarn'')
     else if matches MIXCLOUD_REGEX q then Some (plain q ''Mixcloud'')
     else if matches OCRREMIX_PATTERN q then Some (plain q ''OverClocked ReMix'')
     else if matches PORNHUB_REGEX q then Some (plain q ''Pornhub'')
     else if matches REDDIT_REGEX q then Some (plain q ''Reddit'')
     else if matches SOUNDGASM_REGEX q then Some (plain q ''SoundGasm'')
     else if matches TIKTOK_REGEX q then Some (plain q ''TikTok'')
     else if matches BANDCAMP_REGEX q then Some (process_bandcamp q)
     else if matches NICONICO_REGEX q then Some (plain q ''Niconico'')
     else if matches VIMEO_REGEX q then Some (plain q ''Vimeo'')
     else if matches HTTP_REGEX q then Some (plain q ''HTTP'')
     else None)))"

definition process_search :: "string \<Rightarrow> Query option" where
  "process_search q =
     (case re_match SEARCH_REGEX q of
        None \<Rightarrow> None
      | Some caps \<Rightarrow>
          (let q' = Text (directive_query caps); src = match_group caps ''source'' in
           if src = Some ''ytm'' then Some (Query_init q' ''YouTube Music'' True 0 0 None False)
           else if src = Some ''yt'' then Some (Query_init q' ''YouTube Music'' True 0 0 None False)
           else if src = Some ''sp'' then Some (Query_init q' ''Spotify'' True 0 0 None False)
           else if src = Some ''sc'' then Some (Query_init q' ''SoundCloud'' True 0 0 None False)
           else if src = Some ''am'' then Some (Query_init q' ''Apple Music'' True 0 0 None False)
           else Some (Query_init q' ''YouTube Music'' True 0 0 None False)))"

text \<open>
  \<open>__process_local\<close> looks the path up in the file system (lines 366 to 380): that part
  is the parameter \<open>resolve\<close>, which raises or returns the resolved path and whether it
  is a directory.
\<close>

definition process_local :: "(string \<Rightarrow> exn + string \<times> bool) \<Rightarrow> string \<Rightarrow> exn + Query" where
  "process_local resolve q0 =
     (let (recursively, q) =
            (case re_match LOCAL_TRACK_NESTED q0 of
               Some caps \<Rightarrow>
                 ((case match_group caps ''recursive'' of Some t \<Rightarrow> t \<noteq> [] | None \<Rightarrow> False),
                  directive_query caps)
             | None \<Rightarrow> (False, q0))
      in case resolve q of
           Inl e \<Rightarrow> Inl e
         | Inr (path, is_dir) \<Rightarrow>
             Inr (Query_init (LocalFile path) ''Local Files'' False 0 0
                    (Some (if is_dir then ''album'' else ''single'')) recursively))"

datatype query_input = IsQuery Query | IsStr string | IsPath string | IsNone

definition from_string :: "(string \<Rightarrow> exn + string \<times> bool) \<Rightarrow> query_input \<Rightarrow> exn + Query" where
  "from_string resolve inp =
     (case inp of
        IsQuery x \<Rightarrow> Inr x
      | IsPath p \<Rightarrow>
          (case process_local resolve p of
             Inr r \<Rightarrow> Inr r
           | Inl e \<Rightarrow> Inr (Query_init (PathValue p) ''YouTube Music'' True 0 0 None False))
      | IsNone \<Rightarrow> Inl ValueError
      | IsStr q \<Rightarrow>
          (case process_urls q of
             Some out \<Rightarrow> Inr out
           | None \<Rightarrow>
               (case process_search q of
                  Some out \<Rightarrow> Inr out
                | None \<Rightarrow>
                    (case process_local resolve q of
                       Inr r \<Rightarrow> Inr r
                     | Inl e \<Rightarrow> Inr (Query_init (Text q) ''YouTube Music'' True 0 0 None False)))))"

definition text_of :: "query_value \<Rightarrow> string" where
  "text_of v = (case v of Text t \<Rightarrow> t | LocalFile p \<Rightarrow> p | PathValue p \<Rightarrow> p)"

definition is_youtube_music :: "Query \<Rightarrow> bool" where
  "is_youtube_music q = (source q = ''YouTube Music'')"

definition is_youtube :: "Query \<Rightarrow> bool" where
  "is_youtube q = (source q = ''YouTube'' \<or> is_youtube_music q)"

definition query_identifier :: "Query \<Rightarrow> exn + string" where
  "query_identifier q =
     (if search q then
        (if is_youtube_music q then Inr (''ytmsearch:'' @ text_of (query q))
         else if is_youtube q then Inr (''ytsearch:'' @ text_of (query q))
         else if source q = ''Spotify'' then Inr (''spsearch:'' @ text_of (query q))
         else if source q = ''Apple Music'' then Inr (''amsearch:'' @ text_of (query q))
         else if source q = ''SoundCloud'' then Inr (''scsearch:'' @ text_of (query q))
         else if source q = ''speak'' then Inr (''speak:'' @ take 200 (text_of (query q)))
         else if source q = ''Google TTS'' then Inr (''tts://'' @ text_of (query q))
         else Inr (''ytsearch:'' @ text_of (query q)))
      else if source q = ''Local Files''
      then (case query q of LocalFile p \<Rightarrow> Inr p | _ \<Rightarrow> Inl AttributeError)
      else Inr (text_of (query q)))"

definition with_index :: "Query \<Rightarrow> int \<Rightarrow> Query" where
  "with_index q i =
     Query_init (query q) (source q) (search q) (start_time q) i (Some (qtype q)) False"

section \<open>websocket.py: WebSocket\<close>

text \<open>
  The state is the \<open>WebSocket\<close> object with what it reaches through the client: the players
  of the player manager and the shutting-down flag. Calls on collaborators (node manager,
  player, REST, logger, transport) are recorded in \<open>trace\<close>, in order, and taken to return.
  The socket field \<open>broken\<close> says that \<open>send_json\<close> raises \<open>ConnectionResetError\<close>.

  A frame is the JSON object received, with three facts about it: \<open>guild\<close> is
  \<open>int(guildId)\<close> (\<open>None\<close> when that raises), \<open>valid\<close> says that dacite's \<open>from_dict\<close> accepts
  it for the class its \<open>op\<close> and \<open>type\<close> select, \<open>rebuilds\<close> that a track can be rebuilt from
  \<open>encodedTrack\<close>; \<open>received_at\<close> is \<open>utcnow()\<close> in seconds when it is handled.
\<close>

type_synonym payload = "(string \<times> string) list"

record socket =
  closed :: bool
  closing :: bool
  broken :: bool

record track =
  track_encoded :: string
  query_source :: string
  special_local :: bool

record player =
  guild_id :: nat
  player_node :: string
  is_playing :: bool
  connected_at :: int
  current :: "track option"

datatype task_status = Pending | Cancelled | Done

record probe_task =
  probe_guild :: nat
  status :: task_status

record frame =
  op :: "string option"
  event_type :: "string option"
  guild :: "nat option"
  state_connected :: bool
  encodedTrack :: string
  sessionId :: string
  resumed :: bool
  valid :: bool
  rebuilds :: bool
  received_at :: int

datatype action =
    Log string string
  | SendJson payload
  | Dispatch string
  | PlayerHandleEvent nat string
  | PlayerUpdateState nat
  | PlayerReconnect nat
  | SetStats
  | PatchSession
  | NodeConnect
  | NodeDisconnect
  | UpdateFeatures
  | Attempt nat
  | Sleep
  | CancelConnectTask
  | ScheduleConnect
  | CloseSocket
  | CloseSession

record websocket =
  node_identifier :: string
  ws :: "socket option"
  message_queue :: "payload list"
  max_reconnect_attempts :: int
  resume_key :: string
  resume_timeout :: int
  resuming_configured :: bool
  session_id :: "string option"
  session_resumed :: "bool option"
  ready :: bool
  manual_shutdown :: bool
  connecting :: bool
  player_reconnect_tasks :: "nat \<Rightarrow> nat option"
  tasks :: "probe_task list"
  is_shutting_down :: bool
  players :: "nat \<Rightarrow> player option"
  trace :: "action list"

text \<open>A method returns, or raises with the object as it is at that moment.\<close>

datatype 'a outcome = Returns 'a | Raises exn 'a

definition state_of :: "'a outcome \<Rightarrow> 'a" where
  "state_of r = (case r of Returns s \<Rightarrow> s | Raises e s \<Rightarrow> s)"

definition emit :: "action \<Rightarrow> websocket \<Rightarrow> websocket" where
  "emit a s = s\<lparr>trace := trace s @ [a]\<rparr>"

text \<open>Lines 183 to 185 and 588 to 608.\<close>

definition connected :: "websocket \<Rightarrow> bool" where
  "connected s = (case ws s of None \<Rightarrow> False | Some sock \<Rightarrow> \<not> closed sock \<and> ready s)"

definition send :: "websocket \<Rightarrow> payload \<Rightarrow> websocket" where
  "send s data =
     (if manual_shutdown s then s
      else if connected s
      then (case ws s of
              None \<Rightarrow> s
            | Some sock \<Rightarrow>
                if broken sock
                then (emit (Log ''debug'' ''Send called before WebSocket ready!'')
                        (emit (Log ''trace'' ''Sending payload'') s))
                       \<lparr>message_queue := message_queue s @ [data]\<rparr>
                else emit (SendJson data) (emit (Log ''trace'' ''Sending payload'') s))
      else (emit (Log ''debug'' ''Send called before WebSocket ready!'') s)
             \<lparr>message_queue := message_queue s @ [data]\<rparr>)"

text \<open>
  Lines 305 to 309 of \<open>connect\<close>: every message of a copy of the queue goes through \<open>send\<close>,
  then the queue is cleared.
\<close>

definition flush_queue :: "websocket \<Rightarrow> websocket" where
  "flush_queue s =
     (if message_queue s \<noteq> []
      then (foldl send s (message_queue s))\<lparr>message_queue := []\<rparr>
      else s)"

definition configure_resume_and_timeout :: "websocket \<Rightarrow> websocket" where
  "configure_resume_and_timeout s =
     (if \<not> resuming_configured s \<and> resume_key s \<noteq> [] \<and> resume_timeout s \<noteq> 0
         \<and> resume_timeout s > 0
      then emit (Log ''info'' ''Node resume has been configured'')
             ((emit PatchSession s)\<lparr>resuming_configured := True\<rparr>)
      else s)"

definition handle_ready :: "websocket \<Rightarrow> frame \<Rightarrow> websocket" where
  "handle_ready s data =
     configure_resume_and_timeout
       (emit (Log ''info'' ''Node connected successfully'')
          (s\<lparr>session_id := Some (sessionId data), session_resumed := Some (resumed data),
              ready := True\<rparr>))"

definition handle_stats :: "websocket \<Rightarrow> frame \<Rightarrow> websocket" where
  "handle_stats s data = emit SetStats s"

text \<open>
  Reconnect probes. \<open>tasks\<close> holds every probe task created, \<open>player_reconnect_tasks\<close> is the
  dictionary from guild id to task. \<open>Task.cancel\<close> has an effect on a pending task only.
  Five minutes are 300 seconds.
\<close>

definition cancel_task :: "nat \<Rightarrow> probe_task list \<Rightarrow> probe_task list" where
  "cancel_task i ts =
     (if i < length ts \<and> status (ts ! i) = Pending then ts[i := (ts ! i)\<lparr>status := Cancelled\<rparr>]
      else ts)"

definition stale :: "websocket \<Rightarrow> player \<Rightarrow> bool \<Rightarrow> int \<Rightarrow> bool" where
  "stale s p node_connected now =
     (\<not> node_connected \<and> is_playing p \<and> ready s \<and> connected_at p < now - 300)"

definition handle_player_update :: "websocket \<Rightarrow> frame \<Rightarrow> websocket outcome" where
  "handle_player_update s data =
     (case guild data of
        None \<Rightarrow> Raises ValueError s
      | Some g \<Rightarrow>
          (case players s g of
             None \<Rightarrow> Returns s
           | Some p \<Rightarrow>
               if stale s p (state_connected data) (received_at data)
               then (let ts = (case player_reconnect_tasks s (guild_id p) of
                                 Some i \<Rightarrow> cancel_task i (tasks s)
                               | None \<Rightarrow> tasks s)
                     in Returns
                          ((emit (Log ''verbose'' ''Creating reconnect task'') s)
                             \<lparr>tasks := ts @ [\<lparr>probe_guild = guild_id p, status = Pending\<rparr>],
                              player_reconnect_tasks :=
                                (player_reconnect_tasks s)(guild_id p \<mapsto> length ts)\<rparr>))
               else Returns (emit (PlayerUpdateState (guild_id p)) s)))"

text \<open>
  The body of a probe, run by the event loop when the task is still pending; the player
  manager's entry stands for the player object the task holds.
\<close>

datatype session_result = HTTPError | Session bool

definition maybe_reconnect_player ::
  "websocket \<Rightarrow> player \<Rightarrow> session_result \<Rightarrow> int \<Rightarrow> websocket" where
  "maybe_reconnect_player s p session now =
     (let s1 = emit Sleep s in
      case session of
        HTTPError \<Rightarrow> s1
      | Session voice_connected \<Rightarrow>
          if stale s1 p voice_connected now then emit (PlayerReconnect (guild_id p)) s1 else s1)"

definition run_probe :: "websocket \<Rightarrow> nat \<Rightarrow> session_result \<Rightarrow> int \<Rightarrow> websocket" where
  "run_probe s i session now =
     (if i < length (tasks s) \<and> status (tasks s ! i) = Pending
      then (let s1 = (case players s (probe_guild (tasks s ! i)) of
                        Some p \<Rightarrow> maybe_reconnect_player s p session now
                      | None \<Rightarrow> s)
            in s1\<lparr>tasks := (tasks s1)[i := (tasks s1 ! i)\<lparr>status := Done\<rparr>]\<rparr>)
      else s)"

text \<open>
  \<open>handle_event\<close> receives a dataclass object, or the dictionary itself when
  \<open>handle_message\<close> did not convert it; a dictionary has no attribute \<open>guildId\<close>.
\<close>

datatype message = Dict frame | Obj string frame

definition track_start_event :: "track \<Rightarrow> string" where
  "track_start_event t =
     (let src = query_source t in
      if src = ''YouTube Music'' then ''TrackStartYouTubeMusicEvent''
      else if src = ''YouTube'' then ''TrackStartYouTubeEvent''
      else if src = ''Spotify'' then ''TrackStartSpotifyEvent''
      else if src = ''Deezer'' then ''TrackStartDeezerEvent''
      else if src = ''Apple Music'' then ''TrackStartAppleMusicEvent''
      else if src = ''HTTP'' then ''TrackStartHTTPEvent''
      else if src = ''SoundCloud'' then ''TrackStartSoundCloudEvent''
      else if src = ''Clyp.it'' then ''TrackStartClypitEvent''
      else if src = ''Twitch'' then ''TrackStartTwitchEvent''
      else if src = ''Bandcamp'' then ''TrackStartBandcampEvent''
      else if src = ''Vimeo'' then ''TrackStartVimeoEvent''
      else if src = ''speak'' then ''TrackStartSpeakEvent''
      else if src = ''GetYarn'' then ''TrackStartGetYarnEvent''
      else if src = ''Mixcloud'' then ''TrackStartMixCloudEvent''
      else if src = ''OverClocked ReMix'' then ''TrackStartOCRMixEvent''
      else if src = ''Pornhub'' then ''TrackStartPornHubEvent''
      else if src = ''Reddit'' then ''TrackStartRedditEvent''
      else if src = ''SoundGasm'' then ''TrackStartSoundgasmEvent''
      else if src = ''TikTok'' then ''TrackStartTikTokEvent''
      else if src = ''Google TTS'' then ''TrackStartGCTTSEvent''
      else if src = ''Niconico'' then ''TrackStartNicoNicoEvent''
      else if src = ''Yandex Music'' then ''TrackStartYandexMusicEvent''
      else if src = ''Local Files'' \<or> special_local t then ''TrackStartLocalFileEvent''
      else ''TrackStartEvent'')"

definition process_track_event :: "websocket \<Rightarrow> track option \<Rightarrow> websocket outcome" where
  "process_track_event s t =
     (case t of
        None \<Rightarrow> Raises AttributeError s
      | Some tr \<Rightarrow> Returns (emit (Dispatch (track_start_event tr)) s))"

definition handle_event :: "websocket \<Rightarrow> message \<Rightarrow> websocket outcome" where
  "handle_event s data =
     (if is_shutting_down s then Returns s
      else case data of
        Dict f \<Rightarrow> Raises AttributeError s
      | Obj type f \<Rightarrow>
          (case guild f of
             None \<Rightarrow> Raises ValueError s
           | Some g \<Rightarrow>
               (let s1 = (if players s g = None then emit Sleep s else s) in
                case players s1 g of
                  None \<Rightarrow> Returns (emit (Log ''debug'' ''Received event for non-existent player!'') s1)
                | Some p \<Rightarrow>
                    if type = ''TrackEndEvent''
                    then (if (case current p of None \<Rightarrow> False
                              | Some t \<Rightarrow> track_encoded t = encodedTrack f) \<or> rebuilds f
                          then Returns (emit (Dispatch ''TrackEndEvent'')
                                          (emit (PlayerHandleEvent g ''TrackEndEvent'') s1))
                          else Raises OtherException s1)
                    else if type = ''TrackExceptionEvent''
                    then (if node_identifier s = player_node p
                          then Returns (emit (Dispatch ''TrackExceptionEvent'')
                                          (emit (PlayerHandleEvent g ''TrackExceptionEvent'') s1))
                          else Returns s1)
                    else if type = ''TrackStartEvent''
                    then (case process_track_event s1 (current p) of
                            Raises e s2 \<Rightarrow> Raises e s2
                          | Returns s2 \<Rightarrow> Returns (emit (Dispatch ''TrackStartEvent'') s2))
                    else if type = ''TrackStuckEvent''
                    then Returns (emit (Dispatch ''TrackStuckEvent'')
                                    (emit (PlayerHandleEvent g ''TrackStuckEvent'') s1))
                    else if type = ''WebSocketClosedEvent''
                    then Returns (emit (Dispatch ''WebSocketClosedEvent'') s1)
                    else if type = ''SegmentsLoaded''
                    then Returns (emit (Dispatch ''SegmentsLoadedEvent'') s1)
                    else if type = ''SegmentSkipped''
                    then Returns (emit (Dispatch ''SegmentSkippedEvent'') s1)
                    else Returns (emit (Log ''warning'' ''Received unknown event'') s1))))"

definition known_event :: "string \<Rightarrow> bool" where
  "known_event t = (t = ''TrackStartEvent'' \<or> t = ''TrackEndEvent'' \<or> t = ''TrackExceptionEvent''
       \<or> t = ''TrackStuckEvent'' \<or> t = ''WebSocketClosedEvent'' \<or> t = ''SegmentsLoadedEvent''
       \<or> t = ''SegmentSkippedEvent'')"

definition handle_message :: "websocket \<Rightarrow> frame \<Rightarrow> websocket outcome" where
  "handle_message s data =
     (case op data of
        None \<Rightarrow> Raises KeyError s
      | Some name \<Rightarrow>
          if name = ''playerUpdate''
          then (if valid data then handle_player_update s data else Raises OtherException s)
          else if name = ''stats''
          then (if valid data then Returns (handle_stats s data) else Raises OtherException s)
          else if name = ''event''
          then (case event_type data of
                  None \<Rightarrow> Raises KeyError s
                | Some t \<Rightarrow>
                    if known_event t
                    then (if valid data then handle_event s (Obj t data)
                          else Raises OtherException s)
                    else handle_event (emit (Log ''warning'' ''Received unknown event'') s)
                           (Dict data))
          else if name = ''ready''
          then (if valid data then Returns (handle_ready s data) else Raises OtherException s)
          else Returns (emit (Log ''warning'' ''Received unknown op'') s))"

definition close :: "websocket \<Rightarrow> websocket" where
  "close s =
     (let s1 = emit CancelConnectTask s;
          s2 = (case ws s1 of
                  None \<Rightarrow> s1
                | Some sock \<Rightarrow>
                    if \<not> closed sock \<and> \<not> closing sock
                    then (emit CloseSocket s1)\<lparr>ws := Some (sock\<lparr>closed := True\<rparr>)\<rparr>
                    else s1)
      in emit CloseSession s2)"

definition websocket_closed :: "websocket \<Rightarrow> websocket" where
  "websocket_closed s =
     (let s1 = emit CancelConnectTask
                 (emit NodeDisconnect
                    ((emit (Log ''info'' ''WebSocket disconnected'') s)\<lparr>ws := None\<rparr>))
      in if manual_shutdown s1 then close s1 else emit ScheduleConnect s1)"

text \<open>
  \<open>_listen\<close> awaits the next message; meanwhile another task may call \<open>send\<close>. The end of
  the list is the end of the socket's iteration.
\<close>

datatype listen_step = Message frame | Closed_message | Unparseable | Other_task_sends payload

fun listen :: "listen_step list \<Rightarrow> websocket \<Rightarrow> websocket" where
  "listen [] s = websocket_closed s"
| "listen (Other_task_sends data # rest) s = listen rest (send s data)"
| "listen (Closed_message # rest) s =
     (if manual_shutdown s then s
      else websocket_closed (emit (Log ''info'' ''Received close frame'') s))"
| "listen (Unparseable # rest) s =
     (if manual_shutdown s then s
      else if is_shutting_down s then s
      else websocket_closed (emit (Log ''exception'' ''Exception in WebSocket!'') s))"
| "listen (Message data # rest) s =
     (if manual_shutdown s then s
      else case handle_message s data of
             Returns s1 \<Rightarrow> listen rest s1
           | Raises e s1 \<Rightarrow>
               if is_shutting_down s1 then s1
               else websocket_closed (emit (Log ''exception'' ''Exception in WebSocket!'') s1))"

text \<open>
  \<open>connect\<close>. The environment gives, for each attempt, what \<open>fetch_api_version\<close> and the
  \<open>try\<close> body do (\<open>ws_connect\<close> raises, or returns a socket and \<open>update_features\<close> raises or
  returns), whether the region lookup raises, and what the socket delivers once connected. The loop may run for ever (the limit \<open>-1\<close>), so
  it takes fuel: \<open>None\<close> means the fuel ran out. The class of the backoff is outside the
  sources; a sleep is recorded without its delay.
\<close>

datatype attempt_result =
    Api_version_raises
  | Api_version_unsupported
  | Connect_raises exn
  | Update_features_raises socket exn
  | Connects socket

record environment =
  region_raises :: bool
  attempt_result :: "nat \<Rightarrow> attempt_result"
  inbound :: "listen_step list"

definition caught :: "exn \<Rightarrow> bool" where
  "caught e = (case e of ClientConnectorError \<Rightarrow> True | WSServerHandshakeError st \<Rightarrow> True
               | ServerDisconnectedError \<Rightarrow> True | _ \<Rightarrow> False)"

definition log_exception :: "websocket \<Rightarrow> websocket" where
  "log_exception s =
     emit (Log ''exception'' ''An exception occurred while attempting to connect to the node'') s"

text \<open>
  The \<open>except\<close> clause of lines 263 to 300 for a caught exception: \<open>Inl\<close> is the object with
  which \<open>connect\<close> returns, \<open>Inr\<close> the object with which the loop goes on after the sleep.
\<close>

definition attempt_failed :: "exn \<Rightarrow> websocket \<Rightarrow> websocket + websocket" where
  "attempt_failed e s1 =
     (if is_shutting_down s1 then Inl (s1\<lparr>connecting := False\<rparr>)
      else (case e of
              WSServerHandshakeError st \<Rightarrow>
                if st = 401 \<or> st = 403
                then Inl ((emit (Log ''warning'' ''Authentication failed while trying to establish a connection to the node'') s1)
                            \<lparr>connecting := False\<rparr>)
                else Inr (emit Sleep (emit (Log ''warning'' ''The remote server returned an unexpected code'') s1))
            | ClientConnectorError \<Rightarrow>
                Inr (emit Sleep (emit (Log ''warning'' ''Invalid response received'') s1))
            | _ \<Rightarrow> Inr (emit Sleep s1)))"

fun connect_loop :: "nat \<Rightarrow> environment \<Rightarrow> nat \<Rightarrow> websocket \<Rightarrow> websocket option" where
  "connect_loop 0 env attempt s = None"
| "connect_loop (Suc fuel) env attempt s =
     (if \<not> connected s
         \<and> (max_reconnect_attempts s = - 1 \<or> int attempt < max_reconnect_attempts s)
      then (if manual_shutdown s then Some (s\<lparr>connecting := False\<rparr>)
            else (let s1 = emit (Attempt (Suc attempt)) s in
                  case attempt_result env (Suc attempt) of
                    Api_version_raises \<Rightarrow> Some (log_exception s1)
                  | Api_version_unsupported \<Rightarrow>
                      Some (log_exception
                              (emit (Log ''critical'' ''Node is not running a supported Lavalink version'') s1))
                  | Connects sock \<Rightarrow>
                      Some (emit (Log ''debug'' ''_listen returned'')
                              (listen (inbound env)
                                 (flush_queue
                                    (emit NodeConnect
                                       ((emit UpdateFeatures s1)
                                          \<lparr>ws := Some sock, connecting := False\<rparr>)))))
                  | Connect_raises e \<Rightarrow>
                      if caught e
                      then (case attempt_failed e s1 of
                              Inl s2 \<Rightarrow> Some s2
                            | Inr s2 \<Rightarrow> connect_loop fuel env (Suc attempt) s2)
                      else Some (log_exception s1)
                  | Update_features_raises sock e \<Rightarrow>
                      if caught e
                      then (case attempt_failed e (s1\<lparr>ws := Some sock\<rparr>) of
                              Inl s2 \<Rightarrow> Some s2
                            | Inr s2 \<Rightarrow> connect_loop fuel env (Suc attempt) s2)
                      else Some (log_exception (s1\<lparr>ws := Some sock\<rparr>))))
      else Some (emit (Log ''warning'' ''A WebSocket connection could not be established'') s))"

definition connect :: "nat \<Rightarrow> environment \<Rightarrow> websocket \<Rightarrow> websocket option" where
  "connect fuel env s0 =
     (let s = s0\<lparr>ready := False\<rparr> in
      if is_shutting_down s then Some s
      else if region_raises env then Some (log_exception (s\<lparr>connecting := True\<rparr>))
      else connect_loop fuel env 0 (s\<lparr>connecting := True\<rparr>))"

subsection \<open>States and environments used as examples\<close>

text \<open>
  \<open>fresh\<close> is the object after \<open>__init__\<close>. \<open>live_probes\<close> lists the pending probes of a guild;
  \<open>step\<close> is one thing that happens to the probes: a frame is handled or a probe runs.
\<close>

definition fresh :: websocket where
  "fresh = \<lparr>node_identifier = ''node'', ws = None, message_queue = [],
     max_reconnect_attempts = - 1, resume_key = ''key'', resume_timeout = 60,
     resuming_configured = False, session_id = None, session_resumed = None, ready = False,
     manual_shutdown = False, connecting = False, player_reconnect_tasks = Map.empty,
     tasks = [], is_shutting_down = False, players = Map.empty, trace = []\<rparr>"

definition open_socket :: socket where
  "open_socket = \<lparr>closed = False, closing = False, broken = False\<rparr>"

definition plain_frame :: frame where
  "plain_frame = \<lparr>op = None, event_type = None, guild = Some 1, state_connected = True,
     encodedTrack = [], sessionId = ''abc'', resumed = False, valid = True, rebuilds = True,
     received_at = 1000\<rparr>"

definition live_probes :: "websocket \<Rightarrow> nat \<Rightarrow> nat list" where
  "live_probes s g =
     filter (\<lambda>i. probe_guild (tasks s ! i) = g \<and> status (tasks s ! i) = Pending)
       [0 ..< length (tasks s)]"

datatype event = Frame frame | Probe_runs nat session_result int

definition step :: "websocket \<Rightarrow> event \<Rightarrow> websocket" where
  "step s ev =
     (case ev of
        Frame data \<Rightarrow> state_of (handle_message s data)
      | Probe_runs i session now \<Rightarrow> run_probe s i session now)"

definition raised :: "'a outcome \<Rightarrow> exn option" where
  "raised r = (case r of Returns s \<Rightarrow> None | Raises e s \<Rightarrow> Some e)"

fun delivered :: "action list \<Rightarrow> payload list" where
  "delivered [] = []"
| "delivered (SendJson data # rest) = data # delivered rest"
| "delivered (a # rest) = delivered rest"

definition playing_player :: player where
  "playing_player = \<lparr>guild_id = 1, player_node = ''node'', is_playing = True, connected_at = 0,
     current = None\<rparr>"

definition ready_frame :: frame where
  "ready_frame = plain_frame\<lparr>op := Some ''ready''\<rparr>"

definition unknown_event_frame :: frame where
  "unknown_event_frame = plain_frame\<lparr>op := Some ''event'', event_type := Some ''FooEvent''\<rparr>"

definition unknown_op_frame :: frame where
  "unknown_op_frame = plain_frame\<lparr>op := Some ''foo''\<rparr>"

definition voice_lost_frame :: frame where
  "voice_lost_frame = plain_frame\<lparr>op := Some ''playerUpdate'', state_connected := False\<rparr>"

definition queued_then_connect :: environment where
  "queued_then_connect = \<lparr>region_raises = False, attempt_result = (\<lambda>n. Connects open_socket),
     inbound = [Message ready_frame, Other_task_sends [(''op'', ''stop'')]]\<rparr>"

definition forbidden_on_second :: environment where
  "forbidden_on_second = \<lparr>region_raises = False,
     attempt_result = (\<lambda>n. if n = 1 then Connect_raises ClientConnectorError
                           else if n = 2 then Connect_raises (WSServerHandshakeError 403)
                           else Connects open_socket),
     inbound = []\<rparr>"

text \<open>The invariant of the probes: a pending probe is the one registered for its guild.\<close>

definition probes_registered :: "websocket \<Rightarrow> bool" where
  "probes_registered s =
     (\<forall>i < length (tasks s). status (tasks s ! i) = Pending \<longrightarrow>
        player_reconnect_tasks s (probe_guild (tasks s ! i)) = Some i)"

section \<open>Verified properties\<close>

subsection \<open>DataWriter.write_utf\<close>

lemma pack_unsigned_short_value:
  assumes "n \<le> 65535"
  shows "\<exists>hi lo. pack_unsigned_short n = Inr [hi, lo] \<and> unat hi * 256 + unat lo = n"
proof -
  have a: "unat (word_of_nat (n div 256) :: byte) = n div 256"
    using assms by (simp add: unat_of_nat take_bit_nat_eq_self_iff)
  have b: "unat (word_of_nat (n mod 256) :: byte) = n mod 256"
    by (simp add: unat_of_nat take_bit_nat_eq_self_iff)
  show ?thesis using assms a b by (simp add: pack_unsigned_short_def)
qed

text \<open>
  C10. For a string whose UTF-8 encoding is \<open>utf\<close>, \<open>write_utf\<close> raises \<open>OverflowError\<close>
  exactly when \<open>utf\<close> is longer than 65535 bytes, and then the buffer is what it was;
  otherwise the buffer grows by two bytes holding the length, high byte first, followed by
  \<open>utf\<close>.
\<close>

theorem write_utf_overflow:
  assumes "encode s = Inr utf"
  shows "((\<exists>b. write_utf encode s buf = Inl (OverflowError, b)) \<longleftrightarrow> length utf > 65535)
       \<and> (length utf > 65535 \<longrightarrow> write_utf encode s buf = Inl (OverflowError, buf))
       \<and> (length utf \<le> 65535 \<longrightarrow>
            (\<exists>hi lo. write_utf encode s buf = Inr (buf @ [hi, lo] @ utf)
                     \<and> unat hi * 256 + unat lo = length utf))"
proof (cases "length utf > 65535")
  case True
  then show ?thesis using assms by (simp add: write_utf_def)
next
  case False
  then have n: "length utf \<le> 65535" by simp
  from pack_unsigned_short_value [OF n] obtain hi lo where
    p: "pack_unsigned_short (length utf) = Inr [hi, lo]"
    and v: "unat hi * 256 + unat lo = length utf"
    by blast
  have "write_utf encode s buf = Inr (buf @ [hi, lo] @ utf)"
    using assms n p by (simp add: write_utf_def write_unsigned_short_def write_raw_def)
  then show ?thesis using n v by auto
qed

theorem write_utf_overflow_witness:
  "py_encode (str ''ab'') = Inr [97, 98]
   \<and> write_utf py_encode (str ''ab'') [1] = Inr [1, 0, 2, 97, 98]"
proof -
  have e: "py_encode (str ''ab'') = Inr [97, 98]" by code_simp
  from write_utf_overflow [of py_encode "str ''ab''" "[97, 98]" "[1]"] e obtain hi lo where
    w: "write_utf py_encode (str ''ab'') [1] = Inr ([1] @ [hi, lo] @ [97, 98])"
    and v: "unat hi * 256 + unat lo = 2" by auto
  have "unat hi = 0 \<and> unat lo = 2" using v by arith
  then have "hi = 0 \<and> lo = 2" by (simp add: word_unat_eq_iff)
  then show ?thesis using e w by simp
qed

subsection \<open>decode_track\<close>


























subsection \<open>Query\<close>

lemma with_index_fields:
  assumes "qtype q \<noteq> []"
  shows "index (with_index q i) = i \<and> query (with_index q i) = query q
       \<and> source (with_index q i) = source q \<and> search (with_index q i) = search q
       \<and> start_time (with_index q i) = start_time q \<and> qtype (with_index q i) = qtype q"
  using assms by (simp add: with_index_def Query_init_def)

lemma with_index_recursive: "recursive (with_index q i) = False"
  by (simp add: with_index_def Query_init_def)

lemma eval_local_nested:
  "from_string (\<lambda>p. Inr (p, True)) (IsPath ''nested:/music/rock'')
   = Inr \<lparr>query = LocalFile ''/music/rock'', source = ''Local Files'', search = False,
          start_time = 0, index = 0, qtype = ''album'', recursive = True\<rparr>"
  by code_simp

text \<open>
  C9 fails on the code. For a local album query made with \<open>nested:\<close>, whose recursive flag
  is set, \<open>with_index\<close> returns a query whose recursive flag is cleared: the constructor
  call in \<open>with_index\<close> does not pass \<open>recursive\<close>. Index and the other five fields are as
  the claim says (\<open>with_index_fields\<close>).
\<close>

theorem with_index_drops_recursive:
  "from_string (\<lambda>p. Inr (p, True)) (IsPath ''nested:/music/rock'')
     = Inr \<lparr>query = LocalFile ''/music/rock'', source = ''Local Files'', search = False,
            start_time = 0, index = 0, qtype = ''album'', recursive = True\<rparr>
   \<and> with_index \<lparr>query = LocalFile ''/music/rock'', source = ''Local Files'', search = False,
                  start_time = 0, index = 0, qtype = ''album'', recursive = True\<rparr> 3
     = \<lparr>query = LocalFile ''/music/rock'', source = ''Local Files'', search = False,
        start_time = 0, index = 3, qtype = ''album'', recursive = False\<rparr>"
  using eval_local_nested by (simp add: with_index_def Query_init_def)

lemma eval_urls_ytsearch:
  "process_urls ''ytsearch:lofi beats''
   = Some \<lparr>query = Text ''ytsearch:lofi beats'', source = ''SoundCloud'', search = False,
           start_time = 0, index = 0, qtype = ''single'', recursive = False\<rparr>"
  by code_simp

lemma eval_soundcloud_empty: "re_match SOUND_CLOUD_REGEX ''ytsearch:lofi beats'' = Some []"
  by code_simp

lemma eval_search_ytsearch:
  "process_search ''ytsearch:lofi beats''
   = Some \<lparr>query = Text ''lofi beats'', source = ''YouTube Music'', search = True,
           start_time = 0, index = 0, qtype = ''single'', recursive = False\<rparr>"
  by code_simp

lemma eval_identifier_ytsearch:
  "query_identifier \<lparr>query = Text ''lofi beats'', source = ''YouTube Music'', search = True,
           start_time = 0, index = 0, qtype = ''single'', recursive = False\<rparr>
   = Inr ''ytmsearch:lofi beats''"
  by code_simp

text \<open>
  C4 fails on the code. \<open>from_string\<close> classifies \<open>ytsearch:lofi beats\<close> as a SoundCloud
  query that is not a search: \<open>SOUND_CLOUD_REGEX\<close> matches every string through its empty
  alternative, before the search directive is looked at. \<open>__process_search\<close> alone maps
  the prefix \<open>yt\<close> to YouTube Music, whose identifier is \<open>ytmsearch:lofi beats\<close>.
\<close>

theorem classify_ytsearch:
  "from_string resolve (IsStr ''ytsearch:lofi beats'')
     = Inr \<lparr>query = Text ''ytsearch:lofi beats'', source = ''SoundCloud'', search = False,
            start_time = 0, index = 0, qtype = ''single'', recursive = False\<rparr>
   \<and> process_search ''ytsearch:lofi beats''
     = Some \<lparr>query = Text ''lofi beats'', source = ''YouTube Music'', search = True,
             start_time = 0, index = 0, qtype = ''single'', recursive = False\<rparr>
   \<and> query_identifier \<lparr>query = Text ''lofi beats'', source = ''YouTube Music'', search = True,
             start_time = 0, index = 0, qtype = ''single'', recursive = False\<rparr>
     = Inr ''ytmsearch:lofi beats''"
  using eval_urls_ytsearch eval_search_ytsearch eval_identifier_ytsearch
  by (simp add: from_string_def)

subsection \<open>Reconnect probes\<close>

lemma emit_probes [simp]:
  "tasks (emit a s) = tasks s" "player_reconnect_tasks (emit a s) = player_reconnect_tasks s"
  "players (emit a s) = players s" "ready (emit a s) = ready s"
  by (simp_all add: emit_def)

lemma handle_event_probes:
  "tasks (state_of (handle_event s m)) = tasks s
   \<and> player_reconnect_tasks (state_of (handle_event s m)) = player_reconnect_tasks s"
  unfolding handle_event_def process_track_event_def state_of_def Let_def
  by (simp split: message.splits option.splits)

lemma handle_ready_probes:
  "tasks (handle_ready s f) = tasks s
   \<and> player_reconnect_tasks (handle_ready s f) = player_reconnect_tasks s"
  by (simp add: handle_ready_def configure_resume_and_timeout_def)

lemma cancel_task_length [simp]: "length (cancel_task i ts) = length ts"
  by (simp add: cancel_task_def)

lemma cancel_task_nth:
  "j < length ts \<Longrightarrow> probe_guild (cancel_task i ts ! j) = probe_guild (ts ! j)
     \<and> (status (cancel_task i ts ! j) = Pending \<longleftrightarrow> status (ts ! j) = Pending \<and> j \<noteq> i)"
  by (auto simp: cancel_task_def nth_list_update)

lemma schedule_keeps_registered:
  assumes inv: "probes_registered s"
  shows "probes_registered
           (s\<lparr>tasks := (case player_reconnect_tasks s g of
                           Some i \<Rightarrow> cancel_task i (tasks s) | None \<Rightarrow> tasks s)
                        @ [\<lparr>probe_guild = g, status = Pending\<rparr>],
              player_reconnect_tasks := (player_reconnect_tasks s)
                (g \<mapsto> length (case player_reconnect_tasks s g of
                                 Some i \<Rightarrow> cancel_task i (tasks s) | None \<Rightarrow> tasks s))\<rparr>)"
proof (cases "player_reconnect_tasks s g")
  case None
  then show ?thesis using inv
    by (auto simp: probes_registered_def nth_append less_Suc_eq)
next
  case (Some i)
  then show ?thesis using inv cancel_task_nth [of _ "tasks s" i]
    by (auto simp: probes_registered_def nth_append less_Suc_eq)
qed

lemma handle_player_update_registered:
  assumes "probes_registered s"
  shows "probes_registered (state_of (handle_player_update s f))"
proof (cases "guild f")
  case None
  then show ?thesis using assms by (simp add: handle_player_update_def state_of_def)
next
  case (Some g)
  show ?thesis
  proof (cases "players s g")
    case None
    then show ?thesis using assms Some by (simp add: handle_player_update_def state_of_def)
  next
    case p: (Some p)
    show ?thesis
    proof (cases "stale s p (state_connected f) (received_at f)")
      case True
      have "state_of (handle_player_update s f) =
            (emit (Log ''verbose'' ''Creating reconnect task'') s)
              \<lparr>tasks := (case player_reconnect_tasks s (guild_id p) of
                           Some i \<Rightarrow> cancel_task i (tasks s) | None \<Rightarrow> tasks s)
                        @ [\<lparr>probe_guild = guild_id p, status = Pending\<rparr>],
               player_reconnect_tasks := (player_reconnect_tasks s)
                 (guild_id p \<mapsto> length (case player_reconnect_tasks s (guild_id p) of
                                 Some i \<Rightarrow> cancel_task i (tasks s) | None \<Rightarrow> tasks s))\<rparr>"
        using Some p True by (simp add: handle_player_update_def state_of_def Let_def)
      moreover have "probes_registered \<dots>"
        using schedule_keeps_registered [OF assms, of "guild_id p"]
        by (simp add: probes_registered_def emit_def)
      ultimately show ?thesis by simp
    next
      case False
      then show ?thesis using assms Some p
        by (simp add: handle_player_update_def state_of_def probes_registered_def)
    qed
  qed
qed

lemma handle_message_registered:
  assumes "probes_registered s"
  shows "probes_registered (state_of (handle_message s f))"
proof -
  have ev: "\<And>s' m. probes_registered s' \<Longrightarrow> probes_registered (state_of (handle_event s' m))"
    using handle_event_probes by (simp add: probes_registered_def)
  have em: "\<And>a. probes_registered (emit a s)"
    using assms by (simp add: probes_registered_def)
  have rd: "probes_registered (handle_ready s f)"
    using assms handle_ready_probes [of s f] by (simp add: probes_registered_def)
  have st: "probes_registered (handle_stats s f)"
    using assms by (simp add: handle_stats_def probes_registered_def)
  have r: "probes_registered (state_of (Raises e s))" for e
    using assms by (simp add: state_of_def)
  show ?thesis
    unfolding handle_message_def
    using assms ev em rd st r handle_player_update_registered [OF assms, of f]
    by (auto simp: state_of_def split: option.splits)
qed

lemma maybe_reconnect_probes:
  "tasks (maybe_reconnect_player s p r now) = tasks s
   \<and> player_reconnect_tasks (maybe_reconnect_player s p r now) = player_reconnect_tasks s"
  by (simp add: maybe_reconnect_player_def Let_def split: session_result.splits)

lemma run_probe_registered:
  assumes "probes_registered s"
  shows "probes_registered (run_probe s i r now)"
  using assms maybe_reconnect_probes
  by (auto simp: run_probe_def probes_registered_def Let_def nth_list_update split: option.splits)

lemma step_registered: "probes_registered s \<Longrightarrow> probes_registered (step s ev)"
  by (cases ev) (simp_all add: step_def handle_message_registered run_probe_registered)

lemma run_registered: "probes_registered s \<Longrightarrow> probes_registered (foldl step s evs)"
  by (induction evs arbitrary: s) (simp_all add: step_registered)

lemma registered_at_most_one:
  assumes "probes_registered s"
  shows "length (live_probes s g) \<le> 1"
proof -
  have d: "distinct (live_probes s g)" by (simp add: live_probes_def)
  have "\<forall>i \<in> set (live_probes s g). player_reconnect_tasks s g = Some i"
    using assms by (auto simp: live_probes_def probes_registered_def)
  then have "\<forall>i \<in> set (live_probes s g). \<forall>j \<in> set (live_probes s g). i = j"
    by (metis option.inject)
  then have "card (set (live_probes s g)) \<le> 1"
    by (metis card_le_Suc0_iff_eq List.finite_set One_nat_def)
  then show ?thesis using d by (simp add: distinct_card)
qed

lemma schedule_cancels_previous:
  assumes "guild f = Some g" and "players s g = Some p"
    and "stale s p (state_connected f) (received_at f)"
    and "player_reconnect_tasks s (guild_id p) = Some i" and "i < length (tasks s)"
  shows "status (tasks (state_of (handle_player_update s f)) ! i) \<noteq> Pending
       \<and> player_reconnect_tasks (state_of (handle_player_update s f)) (guild_id p)
           = Some (length (tasks s))
       \<and> tasks (state_of (handle_player_update s f)) ! length (tasks s)
           = \<lparr>probe_guild = guild_id p, status = Pending\<rparr>"
  using assms cancel_task_nth [of i "tasks s" i]
  by (simp add: handle_player_update_def state_of_def Let_def nth_append)

text \<open>
  C8. Starting from an object without probe tasks, after any sequence of handled frames and
  probe runs each guild has at most one pending probe; and when \<open>handle_player_update\<close>
  schedules a probe for a guild that has one registered, the registered task is not pending
  afterwards.
\<close>

theorem one_live_probe_per_guild:
  assumes "tasks s0 = []"
  shows "length (live_probes (foldl step s0 evs) g) \<le> 1
     \<and> (\<forall>f p i. guild f = Some g \<and> players (foldl step s0 evs) g = Some p
           \<and> stale (foldl step s0 evs) p (state_connected f) (received_at f)
           \<and> player_reconnect_tasks (foldl step s0 evs) (guild_id p) = Some i
           \<and> i < length (tasks (foldl step s0 evs))
         \<longrightarrow> status (tasks (step (foldl step s0 evs) (Frame (f\<lparr>op := Some ''playerUpdate'', valid := True\<rparr>))) ! i)
               \<noteq> Pending)"
proof -
  have "probes_registered s0" using assms by (simp add: probes_registered_def)
  then have a: "length (live_probes (foldl step s0 evs) g) \<le> 1"
    by (intro registered_at_most_one run_registered)
  have b: "status (tasks (step s (Frame (f\<lparr>op := Some ''playerUpdate'', valid := True\<rparr>))) ! i) \<noteq> Pending"
    if "guild f = Some g" "players s g = Some p" "stale s p (state_connected f) (received_at f)"
      "player_reconnect_tasks s (guild_id p) = Some i" "i < length (tasks s)" for s f p i
  proof -
    let ?f = "f\<lparr>op := Some ''playerUpdate'', valid := True\<rparr>"
    have "step s (Frame ?f) = state_of (handle_player_update s ?f)"
      by (simp add: step_def handle_message_def)
    then show ?thesis
      using schedule_cancels_previous [of ?f g s p i] that by simp
  qed
  show ?thesis using a b by blast
qed

lemma eval_two_probes:
  "map status (tasks (foldl step (fresh\<lparr>ready := True, players := [1 \<mapsto> playing_player]\<rparr>)
                        [Frame voice_lost_frame, Frame voice_lost_frame]))
   = [Cancelled, Pending]"
  by code_simp

lemma eval_two_probes_live:
  "live_probes (foldl step (fresh\<lparr>ready := True, players := [1 \<mapsto> playing_player]\<rparr>)
                        [Frame voice_lost_frame, Frame voice_lost_frame]) 1 = [1]"
  by code_simp

theorem one_live_probe_per_guild_witness:
  "tasks (fresh\<lparr>ready := True, players := [1 \<mapsto> playing_player]\<rparr>) = []
   \<and> length (live_probes (foldl step (fresh\<lparr>ready := True, players := [1 \<mapsto> playing_player]\<rparr>)
                [Frame voice_lost_frame, Frame voice_lost_frame]) 1) \<le> 1
   \<and> map status (tasks (foldl step (fresh\<lparr>ready := True, players := [1 \<mapsto> playing_player]\<rparr>)
                [Frame voice_lost_frame, Frame voice_lost_frame])) = [Cancelled, Pending]"
proof -
  have t: "tasks (fresh\<lparr>ready := True, players := [1 \<mapsto> playing_player]\<rparr>) = []"
    by (simp add: fresh_def)
  from one_live_probe_per_guild [OF t, of "[Frame voice_lost_frame, Frame voice_lost_frame]" 1]
  have "length (live_probes (foldl step (fresh\<lparr>ready := True, players := [1 \<mapsto> playing_player]\<rparr>)
                [Frame voice_lost_frame, Frame voice_lost_frame]) 1) \<le> 1" by blast
  then show ?thesis using eval_two_probes t by blast
qed

subsection \<open>Frames, queue and connect\<close>

lemma eval_unknown_event:
  "raised (handle_message fresh unknown_event_frame) = Some AttributeError
   \<and> trace (state_of (handle_message fresh unknown_event_frame))
       = [Log ''warning'' ''Received unknown event'']"
  by code_simp

lemma eval_unknown_event_listen:
  "trace (listen [Message unknown_event_frame] (fresh\<lparr>ws := Some open_socket, ready := True\<rparr>))
   = [Log ''warning'' ''Received unknown event'', Log ''exception'' ''Exception in WebSocket!'',
      Log ''info'' ''WebSocket disconnected'', NodeDisconnect, CancelConnectTask, ScheduleConnect]"
  by code_simp

lemma eval_unknown_op:
  "raised (handle_message fresh unknown_op_frame) = None
   \<and> trace (state_of (handle_message fresh unknown_op_frame))
       = [Log ''warning'' ''Received unknown op'']"
  by code_simp

lemma eval_queue:
  "message_queue (send (send fresh [(''op'', ''play'')]) [(''op'', ''pause'')])
   = [[(''op'', ''play'')], [(''op'', ''pause'')]]"
  by code_simp

lemma eval_flush:
  "map_option (\<lambda>s. (delivered (trace s), message_queue s))
     (connect 1 queued_then_connect (send (send fresh [(''op'', ''play'')]) [(''op'', ''pause'')]))
   = Some ([[(''op'', ''stop'')]], [])"
  by code_simp

lemma eval_forbidden:
  "map_option trace (connect 5 forbidden_on_second fresh)
   = Some [Attempt 1, Log ''warning'' ''Invalid response received'', Sleep, Attempt 2,
           Log ''warning'' ''Authentication failed while trying to establish a connection to the node'']"
  by code_simp

lemma delivered_append: "delivered (xs @ ys) = delivered xs @ delivered ys"
  by (induction xs rule: delivered.induct) simp_all

lemma send_not_ready:
  assumes "\<not> ready s"
  shows "delivered (trace (send s data)) = delivered (trace s) \<and> \<not> ready (send s data)
       \<and> manual_shutdown (send s data) = manual_shutdown s
       \<and> message_queue (send s data)
           = (if manual_shutdown s then message_queue s else message_queue s @ [data])"
  using assms by (simp add: send_def connected_def emit_def delivered_append split: option.splits)

lemma sends_not_ready:
  assumes "\<not> ready s"
  shows "delivered (trace (foldl send s ms)) = delivered (trace s) \<and> \<not> ready (foldl send s ms)"
  using assms
proof (induction ms arbitrary: s)
  case Nil
  then show ?case by simp
next
  case (Cons m ms)
  from send_not_ready [OF Cons.prems, of m]
  have a: "delivered (trace (send s m)) = delivered (trace s)" and b: "\<not> ready (send s m)"
    by simp_all
  from Cons.IH [OF b] a show ?case by simp
qed

lemma flush_queue_not_ready:
  assumes "\<not> ready s"
  shows "delivered (trace (flush_queue s)) = delivered (trace s) \<and> message_queue (flush_queue s) = []"
  using sends_not_ready [OF assms, of "message_queue s"] by (simp add: flush_queue_def)

text \<open>
  C1 fails on the code. Two messages sent before the connection are queued. \<open>connect\<close>
  clears \<open>ready\<close> on entry and only the ready frame, read later by \<open>_listen\<close>, sets it: while
  the queue is flushed \<open>send\<close> still finds the socket not connected, appends each message to
  the queue again, and the queue is then cleared. The transport receives only the message
  sent after the ready frame (\<open>flush_queue_not_ready\<close> is the general fact).
\<close>

theorem buffered_messages_dropped:
  "message_queue (send (send fresh [(''op'', ''play'')]) [(''op'', ''pause'')])
     = [[(''op'', ''play'')], [(''op'', ''pause'')]]
   \<and> map_option (\<lambda>s. (delivered (trace s), message_queue s))
       (connect 1 queued_then_connect (send (send fresh [(''op'', ''play'')]) [(''op'', ''pause'')]))
     = Some ([[(''op'', ''stop'')]], [])"
  using eval_queue eval_flush by simp

text \<open>
  C6 fails on the code for unknown event types. \<open>handle_message\<close> logs the warning and then
  calls \<open>handle_event\<close> with the dictionary; reading \<open>guildId\<close> raises \<open>AttributeError\<close>, which
  leaves \<open>handle_message\<close> and makes \<open>_listen\<close> run the disconnect handler. Unknown ops are
  logged and dropped (\<open>unknown_op_dropped\<close>).
\<close>

theorem unknown_event_raises:
  "raised (handle_message fresh unknown_event_frame) = Some AttributeError
   \<and> trace (state_of (handle_message fresh unknown_event_frame))
       = [Log ''warning'' ''Received unknown event'']
   \<and> trace (listen [Message unknown_event_frame] (fresh\<lparr>ws := Some open_socket, ready := True\<rparr>))
       = [Log ''warning'' ''Received unknown event'', Log ''exception'' ''Exception in WebSocket!'',
          Log ''info'' ''WebSocket disconnected'', NodeDisconnect, CancelConnectTask, ScheduleConnect]"
  using eval_unknown_event eval_unknown_event_listen by simp

lemma unknown_op_dropped:
  assumes "op f = Some name" and "name \<noteq> ''playerUpdate''" and "name \<noteq> ''stats''"
    and "name \<noteq> ''event''" and "name \<noteq> ''ready''"
  shows "handle_message s f = Returns (emit (Log ''warning'' ''Received unknown op'') s)"
  using assms by (simp add: handle_message_def)

lemma unknown_event_shutting_down:
  assumes "op f = Some ''event''" and "event_type f = Some t" and "\<not> known_event t"
  shows "handle_message s f =
           (if is_shutting_down s then Returns (emit (Log ''warning'' ''Received unknown event'') s)
            else Raises AttributeError (emit (Log ''warning'' ''Received unknown event'') s))"
  using assms by (simp add: handle_message_def handle_event_def emit_def)

text \<open>
  C2. When the attempt the loop is about to make fails in the handshake with status 401 or
  403, \<open>connect\<close>'s loop returns in that iteration, with any fuel: \<open>connecting\<close> is cleared,
  socket, readiness and queue are untouched, and after the attempt the trace holds at most
  the warning: no sleep, no further attempt, no new connect task.
\<close>

theorem auth_failure_is_terminal:
  assumes a: "attempt_result env (Suc n) = Connect_raises (WSServerHandshakeError st)"
    and st: "st = 401 \<or> st = 403"
    and c: "\<not> connected s"
    and m: "max_reconnect_attempts s = - 1 \<or> int n < max_reconnect_attempts s"
    and ms: "\<not> manual_shutdown s"
  shows "\<exists>s'. connect_loop (Suc fuel) env n s = Some s' \<and> \<not> connecting s'
     \<and> ws s' = ws s \<and> ready s' = ready s \<and> message_queue s' = message_queue s
     \<and> (trace s' = trace s @ [Attempt (Suc n)]
         \<or> trace s' = trace s @ [Attempt (Suc n),
              Log ''warning'' ''Authentication failed while trying to establish a connection to the node''])"
proof (cases "is_shutting_down s")
  case True
  have "connect_loop (Suc fuel) env n s = Some ((emit (Attempt (Suc n)) s)\<lparr>connecting := False\<rparr>)"
    using a c m ms True by (simp add: caught_def attempt_failed_def emit_def Let_def)
  then show ?thesis by (simp add: emit_def)
next
  case False
  have "connect_loop (Suc fuel) env n s =
        Some ((emit (Log ''warning'' ''Authentication failed while trying to establish a connection to the node'')
                 (emit (Attempt (Suc n)) s))\<lparr>connecting := False\<rparr>)"
    using a st c m ms False by (auto simp add: caught_def attempt_failed_def emit_def Let_def)
  then show ?thesis by (simp add: emit_def)
qed

theorem auth_failure_is_terminal_witness:
  "attempt_result forbidden_on_second (Suc 1) = Connect_raises (WSServerHandshakeError 403)
   \<and> \<not> connected (fresh\<lparr>connecting := True\<rparr>) \<and> \<not> manual_shutdown (fresh\<lparr>connecting := True\<rparr>)
   \<and> max_reconnect_attempts (fresh\<lparr>connecting := True\<rparr>) = - 1
   \<and> map_option trace (connect_loop (Suc 0) forbidden_on_second 1 (fresh\<lparr>connecting := True\<rparr>))
       = Some [Attempt 2,
               Log ''warning'' ''Authentication failed while trying to establish a connection to the node'']"
proof -
  let ?s = "fresh\<lparr>connecting := True\<rparr>"
  have a: "attempt_result forbidden_on_second (Suc 1) = Connect_raises (WSServerHandshakeError 403)"
    by (simp add: forbidden_on_second_def)
  have c: "\<not> connected ?s" by (simp add: connected_def fresh_def)
  have m: "max_reconnect_attempts ?s = - 1" by (simp add: fresh_def)
  have ms: "\<not> manual_shutdown ?s" by (simp add: fresh_def)
  have sd: "\<not> is_shutting_down ?s" by (simp add: fresh_def)
  from auth_failure_is_terminal [OF a _ c _ ms, of 0] m obtain s' where
    r: "connect_loop (Suc 0) forbidden_on_second 1 ?s = Some s'"
    and t: "trace s' = trace ?s @ [Attempt (Suc 1)]
         \<or> trace s' = trace ?s @ [Attempt (Suc 1),
              Log ''warning'' ''Authentication failed while trying to establish a connection to the node'']"
    by auto
  have "trace s' \<noteq> trace ?s @ [Attempt (Suc 1)]"
    using r a c m ms sd by (auto simp add: caught_def attempt_failed_def emit_def Let_def)
  then show ?thesis using a c m ms r t by (simp add: fresh_def)
qed

end
